theory Spec2Isabelle
  imports Complex_Main "HOL-Library.Sublist"
begin

unbundle bit_operations_syntax

section \<open>Enumerations and policies (core/configs)\<close>

text \<open>
  \<^verbatim>\<open>core/configs/enums.py\<close>: the lifecycle states, the run modes, the event priorities
  (an IntEnum: the comparisons of the router are on the integer values), the event rules
  and the log levels (an IntFlag: a policy is a bit mask).
\<close>

datatype PipelineState = IDLE | RUNNING | PAUSED | TERMINATED

datatype PipelineMode = SINGLE | LOOP | CONDITIONAL

datatype EventPriority = DEFERRED | IMMEDIATE | INTERRUPT | CRITICAL

fun priority_value :: "EventPriority \<Rightarrow> nat" where
  "priority_value DEFERRED = 10"
| "priority_value IMMEDIATE = 20"
| "priority_value INTERRUPT = 30"
| "priority_value CRITICAL = 40"

datatype EventRule = NORMAL | SILENT | DROP

datatype LogLevel = INFO | WARNING | ERROR

fun level_bit :: "LogLevel \<Rightarrow> nat" where
  "level_bit INFO = 1"
| "level_bit WARNING = 2"
| "level_bit ERROR = 4"

text \<open>
  \<^verbatim>\<open>LogPolicy\<close> is its \<^verbatim>\<open>allowed_mask\<close>; \<^verbatim>\<open>LogLevel.ALL\<close> is 7 and
  \<^verbatim>\<open>LogLevel.NONE\<close> is 0.
\<close>

type_synonym LogPolicy = nat

definition LogPolicy_default :: LogPolicy where
  "LogPolicy_default = 7"

definition LogPolicy_silent :: LogPolicy where
  "LogPolicy_silent = 0"

definition is_allowed :: "LogPolicy \<Rightarrow> LogLevel \<Rightarrow> bool" where
  "is_allowed allowed_mask level =
     (if allowed_mask = 7 then True
      else if allowed_mask = 0 then False
      else (allowed_mask AND level_bit level) \<noteq> 0)"

text \<open>\<^verbatim>\<open>EventPolicy\<close> wraps an \<^verbatim>\<open>EventRule\<close>; these are its two properties.\<close>

definition is_mute :: "EventRule \<Rightarrow> bool" where
  "is_mute rule = (rule = SILENT \<or> rule = DROP)"

definition is_dropped :: "EventRule \<Rightarrow> bool" where
  "is_dropped rule = (rule = DROP)"

section \<open>Exceptions, topics, observations\<close>

text \<open>
  The exceptions that the modelled code raises or catches. All of them are subclasses of
  Python's \<^verbatim>\<open>Exception\<close>, the class that every \<^verbatim>\<open>except Exception\<close> clause of the
  code catches. \<open>PyException\<close> is an instance of the base class \<^verbatim>\<open>Exception\<close> itself,
  with its message; \<open>PipelineCriticalError\<close> and \<open>StrategyExecutionError\<close> are the
  classes of \<^verbatim>\<open>core/exceptions.py\<close>; \<open>OtherError\<close> stands for any other subclass.
\<close>

datatype exn =
    PyException string
  | AttributeError
  | IndexError
  | ZeroDivisionError
  | ValueError
  | StrategyExecutionError
  | PipelineCriticalError
  | OtherError nat

text \<open>
  \<^verbatim>\<open>EventType = Union[str, Enum, Type[Any]]\<close> (core/interfaces/event.py): a topic is a
  class object, a string or an enum member. Only a class object has the attribute
  \<^verbatim>\<open>__name__\<close>. (A member of an enum that mixes in \<^verbatim>\<open>str\<close>, as \<^verbatim>\<open>SystemEvent\<close>
  does, hashes and compares as its string value: it is the \<open>StrTopic\<close> of that value.)
\<close>

datatype EventType = ClassTopic string | StrTopic string | EnumTopic string

fun has_dunder_name :: "EventType \<Rightarrow> bool" where
  "has_dunder_name (ClassTopic n) = True"
| "has_dunder_name (StrTopic n) = False"
| "has_dunder_name (EnumTopic n) = False"

text \<open>
  Event data, callbacks, strategies and frames are objects of the caller: the model knows
  them by identity, a number.
\<close>

type_synonym payload = nat
type_synonym callback_id = nat
type_synonym strategy_id = nat
type_synonym frame_id = nat

text \<open>
  What a call does that is not a change of the pipeline's own state is returned as a list
  of observations, in the order of the source: a line that reached the logging backend
  (with its level, or \<open>LoggedCritical\<close> for \<^verbatim>\<open>SysLogger.critical\<close>, which no policy
  filters), a call of \<^verbatim>\<open>_dispatch_now\<close>, a subscriber callback invoked by the dispatch
  loop, a call of \<^verbatim>\<open>strategy.execute\<close> with its argument and what it gave back, a call
  of \<^verbatim>\<open>release()\<close> on a frame, a call of \<^verbatim>\<open>strategy.cleanup()\<close>, and
  \<^verbatim>\<open>time.sleep\<close>.
\<close>

datatype obs =
    Logged LogLevel string
  | LoggedCritical string
  | DispatchNow EventType payload
  | Invoked callback_id payload
  | Executed strategy_id "frame_id option" "exn + bool \<times> frame_id option"
  | Released frame_id
  | CleanedUp strategy_id
  | Slept

text \<open>\<^verbatim>\<open>SysLogger.info/warning/error(source, message)\<close>: printed iff the source's policy allows the level.\<close>

definition SysLogger :: "LogPolicy \<Rightarrow> LogLevel \<Rightarrow> string \<Rightarrow> obs list" where
  "SysLogger policy level message =
     (if is_allowed policy level then [Logged level message] else [])"

section \<open>State: router, context, configuration, pipeline\<close>

text \<open>
  \<^verbatim>\<open>EventRouter.__init__\<close>: the subscriber lists (a \<^verbatim>\<open>defaultdict(list)\<close>: a topic
  never subscribed to has the empty list), the deferred queue (a deque used first-in
  first-out), the policy table (a dict), the router's own log policy, and whether the
  back-reference \<^verbatim>\<open>_pipeline\<close> is set.
\<close>

record EventRouter =
  subscribers :: "EventType \<Rightarrow> callback_id list"
  deferred_queue :: "(EventType \<times> payload) list"
  event_policies :: "EventType \<rightharpoonup> EventRule"
  router_log_policy :: LogPolicy
  pipeline_bound :: bool

definition EventRouter_init :: EventRouter where
  "EventRouter_init =
     \<lparr> subscribers = (\<lambda>_. []), deferred_queue = [], event_policies = Map.empty,
       router_log_policy = LogPolicy_default, pipeline_bound = True \<rparr>"

text \<open>\<^verbatim>\<open>core/runtime/context.py\<close>: the blackboard is a dict from a type to an object.\<close>

record PipelineContext =
  frame_index :: int
  delta_time :: real
  data_store :: "string \<rightharpoonup> nat"

definition PipelineContext_init :: PipelineContext where
  "PipelineContext_init = \<lparr> frame_index = 0, delta_time = 0, data_store = Map.empty \<rparr>"

definition context_clear :: "PipelineContext \<Rightarrow> PipelineContext" where
  "context_clear c = c\<lparr> frame_index := 0, delta_time := 0, data_store := Map.empty \<rparr>"

text \<open>
  \<^verbatim>\<open>PipelineConfig\<close> (core/configs/settings.py). The router factory is modelled by the
  router it returns (\<open>None\<close>: no factory was configured); the policy table by its items.
\<close>

record PipelineConfig =
  cfg_name :: string
  cfg_strategies :: "strategy_id list"
  cfg_mode :: PipelineMode
  max_fps :: int
  enable_fps_control :: bool
  enable_profiling :: bool
  router_factory :: "EventRouter option"
  cfg_event_policies :: "(EventType \<times> EventRule) list"

text \<open>
  \<^verbatim>\<open>Pipeline\<close> (core/runtime/pipeline.py). Two things are made explicit.

  \<^item> \<^verbatim>\<open>_strategies\<close> is a reference to a Python list object, and the claims on the
    strategy chain depend on whether an operation replaces the reference or mutates the
    object: \<open>chain_store\<close> is the store of list objects, \<open>strategies\<close> the address the
    pipeline holds, \<open>next_ref\<close> the next free address.
  \<^item> \<^verbatim>\<open>_last_time\<close> is an attribute that may not exist: \<open>None\<close> is "no such
    attribute", and reading it then raises \<^verbatim>\<open>AttributeError\<close>.
\<close>

record Pipeline =
  config :: PipelineConfig
  name :: string
  mode :: PipelineMode
  event_router :: EventRouter
  pcontext :: PipelineContext
  state :: PipelineState
  trigger_event :: bool
  frame_interrupted :: bool
  log_policy :: LogPolicy
  strategies :: nat
  chain_store :: "nat \<Rightarrow> strategy_id list"
  next_ref :: nat
  last_time :: "real option"

text \<open>
  Callbacks and strategies are code of the caller. A subscriber callback is called with
  the event data and may do anything to the pipeline and its router before it returns or
  raises; a strategy's \<^verbatim>\<open>execute\<close> is called with the current frame (or \<^verbatim>\<open>None\<close>)
  and returns \<^verbatim>\<open>(success, frame)\<close> or raises. Their behaviours are looked up by
  identity in an environment. A strategy's \<^verbatim>\<open>cleanup()\<close> either raises or not; it and
  \<^verbatim>\<open>set_pipeline\<close>/\<^verbatim>\<open>set_log_policy\<close> are taken to leave the pipeline's own
  attributes alone.
\<close>

record env =
  callback :: "callback_id \<Rightarrow> payload \<Rightarrow> Pipeline \<Rightarrow> Pipeline \<times> exn option"
  execute :: "strategy_id \<Rightarrow> frame_id option \<Rightarrow> Pipeline \<Rightarrow> Pipeline \<times> (exn + bool \<times> frame_id option)"
  strategy_name :: "strategy_id \<Rightarrow> string"
  cleanup_raises :: "strategy_id \<Rightarrow> bool"

section \<open>The event router (core/events/router.py)\<close>

definition set_event_policy :: "EventType \<Rightarrow> EventRule \<Rightarrow> EventRouter \<Rightarrow> EventRouter" where
  "set_event_policy event_type policy r =
     r\<lparr> event_policies := (event_policies r)(event_type \<mapsto> policy) \<rparr>"

text \<open>\<^verbatim>\<open>subscribe\<close> appends to the topic's list object, in place.\<close>

definition subscribe :: "EventType \<Rightarrow> callback_id \<Rightarrow> EventRouter \<Rightarrow> EventRouter" where
  "subscribe event_type cb r =
     r\<lparr> subscribers := (subscribers r)(event_type := subscribers r event_type @ [cb]) \<rparr>"

definition request_frame_interrupt :: "Pipeline \<Rightarrow> Pipeline" where
  "request_frame_interrupt p = p\<lparr> frame_interrupted := True \<rparr>"

text \<open>
  The body of \<^verbatim>\<open>_dispatch_now\<close>: \<^verbatim>\<open>for callback in self._subscribers[event_type]\<close>
  iterates the live list object (the copy is commented out in the source). A Python list
  iterator holds a position and, at each turn, yields the element at that position of the
  list as it is then, or stops when the position is past the end. A callback that raises
  is caught, and the handler logs \<^verbatim>\<open>event_type.__name__\<close>: for a topic that is not a
  class this read raises \<^verbatim>\<open>AttributeError\<close> inside the handler, which leaves the loop
  and the function. The loop can run forever (a callback that subscribes again at every
  call), so it takes fuel: the number of callbacks one dispatch may invoke; \<open>None\<close> is
  "out of fuel".
\<close>

fun dispatch_loop ::
  "nat \<Rightarrow> env \<Rightarrow> EventType \<Rightarrow> payload \<Rightarrow> nat \<Rightarrow> Pipeline \<Rightarrow> (Pipeline \<times> obs list \<times> exn option) option"
where
  "dispatch_loop 0 en event_type data i p =
     (if i < length (subscribers (event_router p) event_type) then None
      else Some (p, [], None))"
| "dispatch_loop (Suc fuel) en event_type data i p =
     (if i < length (subscribers (event_router p) event_type) then
        (let cb = subscribers (event_router p) event_type ! i in
         case callback en cb data p of
           (p1, None) \<Rightarrow>
             (case dispatch_loop fuel en event_type data (Suc i) p1 of
                None \<Rightarrow> None
              | Some (p2, tr, r) \<Rightarrow> Some (p2, Invoked cb data # tr, r))
         | (p1, Some e) \<Rightarrow>
             (if has_dunder_name event_type then
                (case dispatch_loop fuel en event_type data (Suc i) p1 of
                   None \<Rightarrow> None
                 | Some (p2, tr, r) \<Rightarrow>
                     Some (p2, Invoked cb data
                               # SysLogger (router_log_policy (event_router p1)) ERROR ''Handler Error'' @ tr, r))
              else Some (p1, [Invoked cb data], Some AttributeError)))
      else Some (p, [], None))"

text \<open>
  \<^verbatim>\<open>_dispatch_now\<close> with its decorator \<^verbatim>\<open>trace_dispatch\<close>: when the router's policy
  allows INFO, the decorator formats \<^verbatim>\<open>event_type.__name__\<close> into its message (before
  \<^verbatim>\<open>SysLogger\<close> is called), which raises for a topic that is not a class.
\<close>

definition dispatch_now ::
  "nat \<Rightarrow> env \<Rightarrow> EventType \<Rightarrow> payload \<Rightarrow> Pipeline \<Rightarrow> (Pipeline \<times> obs list \<times> exn option) option"
where
  "dispatch_now fuel en event_type data p =
     (let r = event_router p in
      if is_allowed (router_log_policy r) INFO then
        (if \<not> has_dunder_name event_type then Some (p, [DispatchNow event_type data], Some AttributeError)
         else
           (let tr0 = (if subscribers r event_type = []
                       then SysLogger (router_log_policy r) WARNING ''NO_SUB''
                       else SysLogger (router_log_policy r) INFO ''DISPATCH'') in
            case dispatch_loop fuel en event_type data 0 p of
              None \<Rightarrow> None
            | Some (p1, tr, res) \<Rightarrow> Some (p1, DispatchNow event_type data # tr0 @ tr, res)))
      else
        (case dispatch_loop fuel en event_type data 0 p of
           None \<Rightarrow> None
         | Some (p1, tr, res) \<Rightarrow> Some (p1, DispatchNow event_type data # tr, res)))"

text \<open>
  \<^verbatim>\<open>publish\<close> with its decorator \<^verbatim>\<open>trace_publish\<close>. The decorator returns at once on a
  DROP topic, skips the log on a SILENT one, and otherwise calls \<^verbatim>\<open>SysLogger.info\<close>
  when the policy allows INFO or the priority is at least INTERRUPT (\<^verbatim>\<open>SysLogger.info\<close>
  then applies the router's policy again). The body raises a plain \<^verbatim>\<open>Exception\<close> on
  CRITICAL, dispatches at once on IMMEDIATE and INTERRUPT, and appends to the deferred
  queue otherwise. The sender only appears in the log message.
\<close>

definition publish ::
  "nat \<Rightarrow> env \<Rightarrow> EventType \<Rightarrow> payload \<Rightarrow> EventPriority \<Rightarrow> Pipeline \<Rightarrow> (Pipeline \<times> obs list \<times> exn option) option"
where
  "publish fuel en event_type data priority p =
     (let r = event_router p;
          event_policy = (case event_policies r event_type of None \<Rightarrow> NORMAL | Some pol \<Rightarrow> pol) in
      if is_dropped event_policy then Some (p, [], None)
      else
        (let tr0 = (if is_mute event_policy then []
                    else if is_allowed (router_log_policy r) INFO \<or> 30 \<le> priority_value priority
                    then SysLogger (router_log_policy r) INFO ''PUB''
                    else []) in
         if priority = CRITICAL then Some (p, tr0, Some (PyException ''CRITICAL Signal''))
         else if 20 \<le> priority_value priority then
           (case dispatch_now fuel en event_type data p of
              None \<Rightarrow> None
            | Some (p1, tr, Some e) \<Rightarrow> Some (p1, tr0 @ tr, Some e)
            | Some (p1, tr, None) \<Rightarrow>
                (if priority = INTERRUPT then
                   (if pipeline_bound (event_router p1)
                    then Some (request_frame_interrupt p1, tr0 @ tr, None)
                    else Some (p1, tr0 @ tr
                                   @ SysLogger (router_log_policy (event_router p1)) WARNING ''Pipeline is not bound'', None))
                 else Some (p1, tr0 @ tr, None)))
         else
           Some (p\<lparr> event_router := r\<lparr> deferred_queue := deferred_queue r @ [(event_type, data)] \<rparr> \<rparr>,
                 tr0, None)))"

text \<open>
  \<^verbatim>\<open>process_deferred\<close>: \<^verbatim>\<open>count = len(queue)\<close> is read once, then \<^verbatim>\<open>count\<close> times
  \<^verbatim>\<open>popleft()\<close> (which raises \<^verbatim>\<open>IndexError\<close> on an empty deque) and
  \<^verbatim>\<open>_dispatch_now\<close>.
\<close>

fun drain :: "nat \<Rightarrow> env \<Rightarrow> nat \<Rightarrow> Pipeline \<Rightarrow> (Pipeline \<times> obs list \<times> exn option) option" where
  "drain fuel en 0 p = Some (p, [], None)"
| "drain fuel en (Suc count) p =
     (case deferred_queue (event_router p) of
        [] \<Rightarrow> Some (p, [], Some IndexError)
      | (etype, data) # rest \<Rightarrow>
          (case dispatch_now fuel en etype data
                  (p\<lparr> event_router := (event_router p)\<lparr> deferred_queue := rest \<rparr> \<rparr>) of
             None \<Rightarrow> None
           | Some (p1, tr, Some e) \<Rightarrow> Some (p1, tr, Some e)
           | Some (p1, tr, None) \<Rightarrow>
               (case drain fuel en count p1 of
                  None \<Rightarrow> None
                | Some (p2, tr2, res) \<Rightarrow> Some (p2, tr @ tr2, res))))"

definition process_deferred ::
  "nat \<Rightarrow> env \<Rightarrow> Pipeline \<Rightarrow> (Pipeline \<times> obs list \<times> exn option) option"
where
  "process_deferred fuel en p =
     (let r = event_router p in
      if deferred_queue r \<noteq> [] then
        (case drain fuel en (length (deferred_queue r)) p of
           None \<Rightarrow> None
         | Some (p1, tr, res) \<Rightarrow> Some (p1, SysLogger (router_log_policy r) INFO ''FLUSH'' @ tr, res))
      else Some (p, [], None))"

section \<open>The pipeline: lifecycle (core/runtime/pipeline.py)\<close>

text \<open>
  \<^verbatim>\<open>cleanup\<close>: every strategy of the installed chain is cleaned up (an error is logged
  as a warning), then \<^verbatim>\<open>self._strategies.clear()\<close> empties the installed list object
  in place ("no copy-on-write is needed here, this is destruction", says the source), and
  the context is cleared.
\<close>

definition cleanup_strategy :: "env \<Rightarrow> LogPolicy \<Rightarrow> strategy_id \<Rightarrow> obs list" where
  "cleanup_strategy en policy s =
     CleanedUp s # (if cleanup_raises en s then SysLogger policy WARNING ''Cleanup error'' else [])"

definition cleanup :: "env \<Rightarrow> Pipeline \<Rightarrow> Pipeline \<times> obs list" where
  "cleanup en p =
     (p\<lparr> chain_store := (chain_store p)(strategies p := []), pcontext := context_clear (pcontext p) \<rparr>,
      concat (map (cleanup_strategy en (log_policy p)) (chain_store p (strategies p)))
        @ SysLogger (log_policy p) INFO ''Pipeline resources cleaned up.'')"

definition start :: "Pipeline \<Rightarrow> Pipeline \<times> obs list" where
  "start p =
     (if state p = TERMINATED
      then (p, SysLogger (log_policy p) ERROR ''Cannot restart a TERMINATED pipeline.'')
      else (p\<lparr> trigger_event := (if mode p = CONDITIONAL then False else trigger_event p),
               state := RUNNING \<rparr>,
            SysLogger (log_policy p) INFO ''Pipeline started''
              @ SysLogger (log_policy p) INFO ''Pipeline state set''))"

definition trigger :: "Pipeline \<Rightarrow> Pipeline" where
  "trigger p = (if mode p = CONDITIONAL then p\<lparr> trigger_event := True \<rparr> else p)"

definition pause :: "Pipeline \<Rightarrow> Pipeline \<times> obs list" where
  "pause p =
     (if state p = RUNNING
      then (p\<lparr> state := PAUSED \<rparr>, SysLogger (log_policy p) INFO ''Pipeline PAUSED.'')
      else (p, []))"

definition resume :: "Pipeline \<Rightarrow> Pipeline \<times> obs list" where
  "resume p =
     (if state p = PAUSED
      then (p\<lparr> state := RUNNING \<rparr>, SysLogger (log_policy p) INFO ''Pipeline RESUMED.'')
      else (p, []))"

definition stop :: "env \<Rightarrow> Pipeline \<Rightarrow> Pipeline \<times> obs list" where
  "stop en p =
     (if state p \<noteq> TERMINATED then
        (let p1 = p\<lparr> state := TERMINATED \<rparr>;
             (p2, tr) = cleanup en p1
         in (p2, SysLogger (log_policy p) WARNING ''Pipeline TERMINATED. Cleaning up...'' @ tr))
      else (p, []))"

definition set_log_policy :: "LogPolicy \<Rightarrow> Pipeline \<Rightarrow> Pipeline" where
  "set_log_policy policy p = p\<lparr> log_policy := policy \<rparr>"

section \<open>The pipeline: structural edits of the strategy chain\<close>

text \<open>
  Each edit copies the installed list into a new list object (\<^verbatim>\<open>list(self._strategies)\<close>),
  modifies the copy and stores the new reference. \<open>install\<close> is the allocation and the
  assignment \<^verbatim>\<open>self._strategies = new_chain\<close>.
\<close>

definition install :: "strategy_id list \<Rightarrow> Pipeline \<Rightarrow> Pipeline" where
  "install new_chain p =
     p\<lparr> strategies := next_ref p,
        chain_store := (chain_store p)(next_ref p := new_chain),
        next_ref := Suc (next_ref p) \<rparr>"

text \<open>Python's \<^verbatim>\<open>list.insert(index, x)\<close>: a negative index counts from the end, and the index is clamped to the list.\<close>

definition py_insert :: "int \<Rightarrow> 'a \<Rightarrow> 'a list \<Rightarrow> 'a list" where
  "py_insert index x xs =
     (let n = int (length xs);
          j = (if index < 0 then max 0 (index + n) else min index n)
      in take (nat j) xs @ [x] @ drop (nat j) xs)"

definition add_strategy :: "env \<Rightarrow> strategy_id \<Rightarrow> Pipeline \<Rightarrow> Pipeline \<times> obs list" where
  "add_strategy en s p =
     (install (chain_store p (strategies p) @ [s]) p,
      SysLogger (log_policy p) INFO ''Strategy added'')"

definition insert_strategy :: "env \<Rightarrow> int \<Rightarrow> strategy_id \<Rightarrow> Pipeline \<Rightarrow> Pipeline \<times> obs list" where
  "insert_strategy en index s p =
     (install (py_insert index s (chain_store p (strategies p))) p,
      SysLogger (log_policy p) INFO ''Strategy inserted'')"

definition remove_strategy :: "env \<Rightarrow> strategy_id \<Rightarrow> Pipeline \<Rightarrow> Pipeline \<times> obs list" where
  "remove_strategy en s p =
     (if s \<notin> set (chain_store p (strategies p))
      then (p, SysLogger (log_policy p) WARNING ''Cannot remove strategy: Not found.'')
      else (install (remove1 s (chain_store p (strategies p))) p,
            CleanedUp s
              # (if cleanup_raises en s
                 then SysLogger (log_policy p) ERROR ''Error cleaning up removed strategy'' else [])
              @ SysLogger (log_policy p) INFO ''Strategy removed''))"

definition remove_strategy_by_name :: "env \<Rightarrow> string \<Rightarrow> Pipeline \<Rightarrow> Pipeline \<times> obs list" where
  "remove_strategy_by_name en nm p =
     (case find (\<lambda>s. strategy_name en s = nm) (chain_store p (strategies p)) of
        Some target \<Rightarrow> remove_strategy en target p
      | None \<Rightarrow> (p, SysLogger (log_policy p) WARNING ''Cannot remove strategy: Name not found.''))"

definition remove_strategy_by_index :: "env \<Rightarrow> int \<Rightarrow> Pipeline \<Rightarrow> Pipeline \<times> obs list" where
  "remove_strategy_by_index en index p =
     (if 0 \<le> index \<and> index < int (length (chain_store p (strategies p)))
      then remove_strategy en (chain_store p (strategies p) ! nat index) p
      else (p, SysLogger (log_policy p) WARNING ''Cannot remove strategy: Out of bounds.''))"

section \<open>The pipeline: construction\<close>

text \<open>
  \<^verbatim>\<open>Pipeline.__init__\<close>: without a router factory it raises \<^verbatim>\<open>ValueError\<close>; otherwise
  it builds the router, applies the configured event policies, creates the context, sets
  the state, the trigger, the interrupt flag and the log policy, starts from an empty
  chain and adds the configured strategies with \<^verbatim>\<open>add_strategy\<close>. It assigns no
  \<^verbatim>\<open>_last_time\<close>.
\<close>

definition Pipeline_init :: "env \<Rightarrow> PipelineConfig \<Rightarrow> exn + Pipeline" where
  "Pipeline_init en cfg =
     (case router_factory cfg of
        None \<Rightarrow> Inl ValueError
      | Some router \<Rightarrow>
          Inr (fold (\<lambda>s p. fst (add_strategy en s p)) (cfg_strategies cfg)
                 \<lparr> config = cfg, name = cfg_name cfg, mode = cfg_mode cfg,
                   event_router = fold (\<lambda>(event_type, policy). set_event_policy event_type policy)
                                    (cfg_event_policies cfg) router,
                   pcontext = PipelineContext_init,
                   state = IDLE, trigger_event = False, frame_interrupted = False,
                   log_policy = LogPolicy_default,
                   strategies = 0, chain_store = (\<lambda>_. []), next_ref = 1,
                   last_time = None \<rparr>))"

section \<open>The pipeline: one step\<close>

text \<open>\<^verbatim>\<open>if current_data and hasattr(current_data, "release"): current_data.release()\<close>\<close>

fun release_current :: "frame_id option \<Rightarrow> obs list" where
  "release_current None = []"
| "release_current (Some f) = [Released f]"

text \<open>
  The \<^verbatim>\<open>for strategy in current_chain\<close> loop of \<^verbatim>\<open>step\<close>. \<^verbatim>\<open>current_chain\<close> is the
  list object whose reference was loaded before the loop (address \<open>a\<close>); the loop reads
  it position by position, as Python's list iterator does. It leaves by
  \<^verbatim>\<open>return True\<close> (\<open>Returned\<close>) when the pipeline is found TERMINATED, and by
  \<^verbatim>\<open>break\<close> or at the end of the list otherwise (\<open>Finished\<close>). Both \<^verbatim>\<open>except\<close>
  clauses around \<^verbatim>\<open>strategy.execute\<close> log an error, release the frame and break. The
  result carries \<^verbatim>\<open>current_data\<close> and \<^verbatim>\<open>did_work\<close> as the loop leaves them. Fuel
  bounds the number of turns.
\<close>

datatype walk_exit = Returned | Finished

fun walk ::
  "nat \<Rightarrow> env \<Rightarrow> nat \<Rightarrow> nat \<Rightarrow> frame_id option \<Rightarrow> bool \<Rightarrow> Pipeline
     \<Rightarrow> (Pipeline \<times> obs list \<times> walk_exit \<times> frame_id option \<times> bool) option"
where
  "walk 0 en a i current_data did_work p =
     (if i < length (chain_store p a) then None
      else Some (p, [], Finished, current_data, did_work))"
| "walk (Suc fuel) en a i current_data did_work p =
     (if i < length (chain_store p a) then
        (let strategy = chain_store p a ! i in
         if state p = TERMINATED
         then Some (p, release_current current_data, Returned, current_data, did_work)
         else if frame_interrupted p
         then Some (p, (if enable_profiling (config p)
                        then SysLogger (log_policy p) WARNING ''Frame interrupted logic flow.''
                        else []),
                    Finished, current_data, did_work)
         else
           (case execute en strategy current_data p of
              (p1, Inr (success, new_data)) \<Rightarrow>
                (if \<not> success
                 then Some (p1, Executed strategy current_data (Inr (success, new_data))
                                # release_current new_data,
                            Finished, new_data, did_work)
                 else
                   (case walk fuel en a (Suc i) new_data True p1 of
                      None \<Rightarrow> None
                    | Some (p2, tr, ex, cur, did) \<Rightarrow>
                        Some (p2, Executed strategy current_data (Inr (success, new_data)) # tr,
                              ex, cur, did)))
            | (p1, Inl e) \<Rightarrow>
                Some (p1, Executed strategy current_data (Inl e)
                          # SysLogger (log_policy p1) ERROR
                              (if e = StrategyExecutionError then ''Strategy Error'' else ''Unexpected Error'')
                          @ release_current current_data,
                      Finished, current_data, did_work)))
      else Some (p, [], Finished, current_data, did_work))"

text \<open>\<^verbatim>\<open>_handle_frame_pacing\<close>: \<^verbatim>\<open>1.0 / self.config.max_fps\<close> raises on a zero rate.\<close>

definition handle_frame_pacing :: "real \<Rightarrow> Pipeline \<Rightarrow> obs list \<times> exn option" where
  "handle_frame_pacing duration p =
     (if max_fps (config p) = 0 then ([], Some ZeroDivisionError)
      else
        (let target_interval = 1 / real_of_int (max_fps (config p));
             remaining = target_interval - duration
         in ((if duration > target_interval \<and> enable_profiling (config p)
              then SysLogger (log_policy p) WARNING ''Frame Drop!'' else [])
             @ (if enable_fps_control (config p) \<and> remaining > 0 then [Slept] else []),
             None)))"

text \<open>
  The \<^verbatim>\<open>finally\<close> block of \<^verbatim>\<open>step\<close>: flush the deferred events, release the frame
  still held, pace. An exception raised in it leaves \<^verbatim>\<open>step\<close>.
\<close>

definition finalize ::
  "nat \<Rightarrow> env \<Rightarrow> real \<Rightarrow> frame_id option \<Rightarrow> Pipeline \<Rightarrow> (Pipeline \<times> obs list \<times> exn option) option"
where
  "finalize fuel en execution_duration current_data p =
     (case process_deferred fuel en p of
        None \<Rightarrow> None
      | Some (p1, tr, Some e) \<Rightarrow> Some (p1, tr, Some e)
      | Some (p1, tr, None) \<Rightarrow>
          (case handle_frame_pacing execution_duration p1 of
             (tr2, res) \<Rightarrow> Some (p1, tr @ release_current current_data @ tr2, res)))"

text \<open>
  \<^verbatim>\<open>step\<close>. \<open>loop_start_time\<close> and \<open>loop_end_time\<close> are the two readings of
  \<^verbatim>\<open>time.perf_counter()\<close>. The result is \<open>Inl\<close> of the exception that leaves the
  call, or \<open>Inr\<close> of the returned boolean. No exception of the loop reaches the outer
  \<^verbatim>\<open>except Exception\<close> clause of the \<^verbatim>\<open>try\<close> (the inner clauses catch everything a
  strategy raises), so that clause has no branch here.
\<close>

definition step ::
  "nat \<Rightarrow> env \<Rightarrow> real \<Rightarrow> real \<Rightarrow> Pipeline \<Rightarrow> (Pipeline \<times> obs list \<times> (exn + bool)) option"
where
  "step fuel en loop_start_time loop_end_time p =
     (if state p \<noteq> RUNNING then Some (p, [], Inr False)
      else if mode p = CONDITIONAL \<and> \<not> trigger_event p then Some (p, [], Inr False)
      else
        (let p0 = (if mode p = CONDITIONAL then p\<lparr> trigger_event := False \<rparr> else p) in
         case last_time p0 of
           None \<Rightarrow> Some (p0, [], Inl AttributeError)
         | Some previous \<Rightarrow>
             (let dt = (if loop_start_time - previous < 0 then 0 else loop_start_time - previous);
                  p1 = p0\<lparr> last_time := Some loop_start_time,
                           pcontext := (pcontext p0)\<lparr> delta_time := dt,
                                                      frame_index := frame_index (pcontext p0) + 1 \<rparr>,
                           frame_interrupted := False \<rparr>
              in case walk fuel en (strategies p1) 0 None False p1 of
                   None \<Rightarrow> None
                 | Some (p2, tr, ex, current_data, did_work) \<Rightarrow>
                     (case finalize fuel en (loop_end_time - loop_start_time) current_data p2 of
                        None \<Rightarrow> None
                      | Some (p3, tr2, Some e) \<Rightarrow> Some (p3, tr @ tr2, Inl e)
                      | Some (p3, tr2, None) \<Rightarrow>
                          (if ex = Returned then Some (p3, tr @ tr2, Inr True)
                           else if mode p3 = SINGLE
                           then (case stop en p3 of
                                   (p4, tr3) \<Rightarrow> Some (p4, tr @ tr2 @ tr3, Inr did_work))
                           else Some (p3, tr @ tr2, Inr did_work))))))"

section \<open>The executor (core/runtime/executor.py)\<close>

text \<open>\<^verbatim>\<open>core/events/protocol.py\<close>: the alert carried to the hub.\<close>

datatype AlertLevel = ALERT_INFO | ALERT_WARNING | ALERT_ERROR | ALERT_CRITICAL

datatype ErrorCode =
    GENERIC_ERROR | INIT_FAILED | MISSING_DEPENDENCY | RESOURCE_NOT_FOUND | DEVICE_OPEN_FAILED
  | VIDEO_SIGNAL_LOSS | PERFORMANCE_DEGRADED | MEMORY_WARNING | MODEL_LOAD_FAILED | INFERENCE_ERROR

datatype SystemEvent = PIPELINE_CONTROL | SYSTEM_ALERT | FRAME_PROCESSED

record SystemAlertPayload =
  level :: AlertLevel
  error_code :: ErrorCode
  source :: string
  message :: string

text \<open>
  The executor holds its pipelines (here by position in the list) and the injected hub, if
  any; the hub is modelled by the list of what has been published to it.
\<close>

record PipelineExecutor =
  executor_name :: string
  pipelines :: "Pipeline list"
  running :: bool
  executor_log_policy :: LogPolicy
  event_hub :: "(SystemEvent \<times> SystemAlertPayload) list option"

definition report_critical_error ::
  "string \<Rightarrow> Pipeline \<Rightarrow> string \<Rightarrow> (SystemEvent \<times> SystemAlertPayload) list option
     \<Rightarrow> (SystemEvent \<times> SystemAlertPayload) list option"
where
  "report_critical_error ex_name pipe msg hub =
     (case hub of
        None \<Rightarrow> None
      | Some published \<Rightarrow>
          Some (published @ [(SYSTEM_ALERT,
                  \<lparr> level = ALERT_CRITICAL, error_code = GENERIC_ERROR,
                    source = ex_name @ ''/'' @ name pipe, message = msg \<rparr>)]))"

text \<open>
  The body of the \<^verbatim>\<open>for pipe in current_pipelines\<close> loop of \<^verbatim>\<open>_loop\<close>, for one
  pipeline: a TERMINATED pipeline is marked for removal and skipped; otherwise it is
  stepped, \<^verbatim>\<open>except PipelineCriticalError\<close> reports to the hub and stops the pipeline,
  and \<^verbatim>\<open>except Exception\<close> logs and goes on. The result is the pipeline, whether it
  is marked, whether it did work, the observations and the hub.
\<close>

definition sweep_one ::
  "nat \<Rightarrow> env \<Rightarrow> real \<times> real \<Rightarrow> string \<Rightarrow> LogPolicy
     \<Rightarrow> (SystemEvent \<times> SystemAlertPayload) list option \<Rightarrow> Pipeline
     \<Rightarrow> (Pipeline \<times> bool \<times> bool \<times> obs list \<times> (SystemEvent \<times> SystemAlertPayload) list option) option"
where
  "sweep_one fuel en clock ex_name policy hub pipe =
     (if state pipe = TERMINATED then Some (pipe, True, False, [], hub)
      else
        (case step fuel en (fst clock) (snd clock) pipe of
           None \<Rightarrow> None
         | Some (pipe1, tr, Inr did_work) \<Rightarrow> Some (pipe1, False, did_work, tr, hub)
         | Some (pipe1, tr, Inl e) \<Rightarrow>
             (if e = PipelineCriticalError then
                (case stop en pipe1 of
                   (pipe2, tr2) \<Rightarrow>
                     Some (pipe2, False, False, tr @ [LoggedCritical ''CRITICAL ERROR''] @ tr2,
                           report_critical_error ex_name pipe1 ''PipelineCriticalError'' hub))
              else Some (pipe1, False, False, tr @ SysLogger policy ERROR ''Unhandled Error'', hub))))"

fun sweep ::
  "nat \<Rightarrow> env \<Rightarrow> (nat \<Rightarrow> real \<times> real) \<Rightarrow> string \<Rightarrow> LogPolicy \<Rightarrow> nat
     \<Rightarrow> (SystemEvent \<times> SystemAlertPayload) list option \<Rightarrow> Pipeline list
     \<Rightarrow> ((Pipeline \<times> bool) list \<times> bool \<times> obs list \<times> (SystemEvent \<times> SystemAlertPayload) list option) option"
where
  "sweep fuel en clock ex_name policy k hub [] = Some ([], False, [], hub)"
| "sweep fuel en clock ex_name policy k hub (pipe # rest) =
     (case sweep_one fuel en (clock k) ex_name policy hub pipe of
        None \<Rightarrow> None
      | Some (pipe1, marked, did_work, tr, hub1) \<Rightarrow>
          (case sweep fuel en clock ex_name policy (Suc k) hub1 rest of
             None \<Rightarrow> None
           | Some (rest1, any_work_done, tr2, hub2) \<Rightarrow>
               Some ((pipe1, marked) # rest1, did_work \<or> any_work_done, tr @ tr2, hub2)))"

text \<open>
  One turn of \<^verbatim>\<open>while self._running\<close>: sweep the attached pipelines, detach the ones
  marked, sleep if no pipeline did work. \<open>clock k\<close> gives the two clock readings of the
  step of the pipeline at position \<open>k\<close>.
\<close>

definition loop_turn ::
  "nat \<Rightarrow> env \<Rightarrow> (nat \<Rightarrow> real \<times> real) \<Rightarrow> PipelineExecutor \<Rightarrow> (PipelineExecutor \<times> obs list) option"
where
  "loop_turn fuel en clock ex =
     (case sweep fuel en clock (executor_name ex) (executor_log_policy ex) 0 (event_hub ex)
             (pipelines ex) of
        None \<Rightarrow> None
      | Some (swept, any_work_done, tr, hub) \<Rightarrow>
          Some (ex\<lparr> pipelines := map fst (filter (\<lambda>pm. \<not> snd pm) swept), event_hub := hub \<rparr>,
                tr @ concat (map (\<lambda>pm. SysLogger (executor_log_policy ex) WARNING
                                          ''Pipeline detached (Terminated)'')
                               (filter snd swept))
                   @ (if any_work_done then [] else [Slept])))"

section \<open>Sequences of calls, and the pipelines the code can build\<close>

text \<open>The lifecycle methods of a pipeline as calls, and a sequence of them run in order.\<close>

datatype lifecycle_call = Start | Pause | Resume | Stop | Trigger | Step real real

fun call :: "nat \<Rightarrow> env \<Rightarrow> lifecycle_call \<Rightarrow> Pipeline \<Rightarrow> Pipeline option" where
  "call fuel en Start p = Some (fst (start p))"
| "call fuel en Pause p = Some (fst (pause p))"
| "call fuel en Resume p = Some (fst (resume p))"
| "call fuel en Stop p = Some (fst (stop en p))"
| "call fuel en Trigger p = Some (trigger p)"
| "call fuel en (Step t0 t1) p = map_option fst (step fuel en t0 t1 p)"

fun calls :: "nat \<Rightarrow> env \<Rightarrow> lifecycle_call list \<Rightarrow> Pipeline \<Rightarrow> Pipeline option" where
  "calls fuel en [] p = Some p"
| "calls fuel en (c # cs) p =
     (case call fuel en c p of None \<Rightarrow> None | Some p1 \<Rightarrow> calls fuel en cs p1)"

text \<open>
  The pipelines that the constructor and the methods of \<^verbatim>\<open>Pipeline\<close> produce: built by
  \<^verbatim>\<open>Pipeline.__init__\<close> from a configuration, then any of the lifecycle methods, the
  structural edits, \<^verbatim>\<open>set_log_policy\<close>, \<^verbatim>\<open>cleanup\<close>, a step that returns, or any
  change of the router (subscriptions, policies, the deferred queue).
\<close>

inductive reachable :: "env \<Rightarrow> Pipeline \<Rightarrow> bool" for en :: env where
  constructed: "Pipeline_init en cfg = Inr p \<Longrightarrow> reachable en p"
| after_start: "reachable en p \<Longrightarrow> reachable en (fst (start p))"
| after_trigger: "reachable en p \<Longrightarrow> reachable en (trigger p)"
| after_pause: "reachable en p \<Longrightarrow> reachable en (fst (pause p))"
| after_resume: "reachable en p \<Longrightarrow> reachable en (fst (resume p))"
| after_stop: "reachable en p \<Longrightarrow> reachable en (fst (stop en p))"
| after_cleanup: "reachable en p \<Longrightarrow> reachable en (fst (cleanup en p))"
| after_request_frame_interrupt: "reachable en p \<Longrightarrow> reachable en (request_frame_interrupt p)"
| after_set_log_policy: "reachable en p \<Longrightarrow> reachable en (set_log_policy policy p)"
| after_add_strategy: "reachable en p \<Longrightarrow> reachable en (fst (add_strategy en s p))"
| after_insert_strategy: "reachable en p \<Longrightarrow> reachable en (fst (insert_strategy en index s p))"
| after_remove_strategy: "reachable en p \<Longrightarrow> reachable en (fst (remove_strategy en s p))"
| after_remove_strategy_by_name:
    "reachable en p \<Longrightarrow> reachable en (fst (remove_strategy_by_name en nm p))"
| after_remove_strategy_by_index:
    "reachable en p \<Longrightarrow> reachable en (fst (remove_strategy_by_index en index p))"
| after_router: "reachable en p \<Longrightarrow> reachable en (p\<lparr> event_router := r \<rparr>)"
| after_step: "reachable en p \<Longrightarrow> step fuel en t0 t1 p = Some (p1, tr, res) \<Longrightarrow> reachable en p1"

section \<open>Concrete pipelines\<close>

text \<open>
  An environment whose callbacks do nothing and whose strategies pass the frame on, and a
  LOOP configuration with two strategies, as \<^verbatim>\<open>PipelineFactory.create_pipeline\<close> builds
  it (default rate, no pacing, no profiling, a standard router).
\<close>

definition base_env :: env where
  "base_env = \<lparr> callback = (\<lambda>cb d p. (p, None)),
                execute = (\<lambda>s f p. (p, Inr (True, f))),
                strategy_name = (\<lambda>s. ''strategy''),
                cleanup_raises = (\<lambda>s. False) \<rparr>"

definition loop_config :: PipelineConfig where
  "loop_config = \<lparr> cfg_name = ''main'', cfg_strategies = [1, 2], cfg_mode = LOOP, max_fps = 60,
       enable_fps_control = False, enable_profiling = False,
       router_factory = Some EventRouter_init, cfg_event_policies = [] \<rparr>"

definition fresh_pipeline :: Pipeline where
  "fresh_pipeline = projr (Pipeline_init base_env loop_config)"

text \<open>
  \<^verbatim>\<open>pipeline._last_time = t\<close>, assigned by the caller. No code of the repository makes
  this assignment; without it no step gets past the timing code.
\<close>

definition with_last_time :: "real \<Rightarrow> Pipeline \<Rightarrow> Pipeline" where
  "with_last_time t p = p\<lparr> last_time := Some t \<rparr>"

text \<open>
  A strategy whose \<^verbatim>\<open>execute\<close> publishes on a topic at CRITICAL priority through the
  pipeline's router, and returns the frame it was given if the publish returns. In
  \<open>critical_env\<close> strategy 1 is a source that produces frame 7 and every other strategy
  is such a publisher.
\<close>

definition critical_publisher ::
  "EventType \<Rightarrow> frame_id option \<Rightarrow> Pipeline \<Rightarrow> Pipeline \<times> (exn + bool \<times> frame_id option)"
where
  "critical_publisher topic f p =
     (case publish 0 base_env topic 0 CRITICAL p of
        Some (p1, tr, Some e) \<Rightarrow> (p1, Inl e)
      | Some (p1, tr, None) \<Rightarrow> (p1, Inr (True, f))
      | None \<Rightarrow> (p, Inr (True, f)))"

definition critical_env :: env where
  "critical_env =
     base_env\<lparr> execute := (\<lambda>s f p. if s = 1 then (p, Inr (True, Some 7))
                                  else critical_publisher (ClassTopic ''Overheat'') f p) \<rparr>"

text \<open>An executor with a hub and two running pipelines: the given one and a sibling with the source only.\<close>

definition sibling_config :: PipelineConfig where
  "sibling_config = loop_config\<lparr> cfg_name := ''sibling'', cfg_strategies := [1] \<rparr>"

definition two_pipelines :: "Pipeline \<Rightarrow> PipelineExecutor" where
  "two_pipelines p =
     \<lparr> executor_name = ''executor'',
       pipelines = [p, with_last_time 0 (fst (start (projr (Pipeline_init base_env sibling_config))))],
       running = True, executor_log_policy = LogPolicy_default, event_hub = Some [] \<rparr>"







definition subscribed_pipeline :: Pipeline where
  "subscribed_pipeline =
     fresh_pipeline\<lparr> event_router := subscribe (ClassTopic ''BallDetected'') 1 (event_router fresh_pipeline) \<rparr>"

text \<open>The calls of \<^verbatim>\<open>_dispatch_now\<close> that a flush made, in order, read off the observations.\<close>

fun dispatched :: "obs list \<Rightarrow> (EventType \<times> payload) list" where
  "dispatched [] = []"
| "dispatched (DispatchNow et d # tr) = (et, d) # dispatched tr"
| "dispatched (x # tr) = dispatched tr"

text \<open>
  \<^verbatim>\<open>router.publish(event_type, data)\<close> at the default priority, DEFERRED. In
  \<open>queued_pipeline\<close> callback 3 is subscribed to the string topic \<^verbatim>\<open>"tick"\<close> and
  callback 1 to the class topic, and one event has been published on each, in this order.
\<close>

definition publish_deferred :: "EventType \<Rightarrow> payload \<Rightarrow> Pipeline \<Rightarrow> Pipeline" where
  "publish_deferred event_type data p =
     (case publish 0 base_env event_type data DEFERRED p of
        Some (p1, tr, res) \<Rightarrow> p1
      | None \<Rightarrow> p)"

definition queued_pipeline :: Pipeline where
  "queued_pipeline =
     publish_deferred (ClassTopic ''BallDetected'') 2
       (publish_deferred (StrTopic ''tick'') 1
          (subscribed_pipeline\<lparr> event_router :=
             subscribe (StrTopic ''tick'') 3 (event_router subscribed_pipeline) \<rparr>))"



text \<open>The strategies executed, in order, read off the observations.\<close>

fun executions :: "obs list \<Rightarrow> strategy_id list" where
  "executions [] = []"
| "executions (Executed s c out # tr) = s # executions tr"
| "executions (x # tr) = executions tr"









section \<open>The terminal state\<close>

lemma call_terminated:
  "state p = TERMINATED \<Longrightarrow> \<exists>p1. call fuel en c p = Some p1 \<and> state p1 = TERMINATED"
  by (cases c) (simp_all add: start_def pause_def resume_def stop_def trigger_def step_def)

lemma calls_terminated:
  "state p = TERMINATED \<Longrightarrow> \<exists>p1. calls fuel en cs p = Some p1 \<and> state p1 = TERMINATED"
proof (induction cs arbitrary: p)
  case Nil
  then show ?case by simp
next
  case (Cons c cs)
  from call_terminated [OF Cons.prems, of fuel en c]
  obtain p1 where c1: "call fuel en c p = Some p1" and s1: "state p1 = TERMINATED" by blast
  from Cons.IH [OF s1] show ?case using c1 by simp
qed

text \<open>
  Claim C7. TERMINATED is absorbing: on a pipeline whose state is TERMINATED, each of
  \<^verbatim>\<open>start()\<close>, \<^verbatim>\<open>pause()\<close>, \<^verbatim>\<open>resume()\<close>, \<^verbatim>\<open>stop()\<close>, \<^verbatim>\<open>trigger()\<close> and
  \<^verbatim>\<open>step()\<close> leaves the state TERMINATED (\<^verbatim>\<open>step()\<close> returns False at once and changes
  nothing), and so does every sequence of such calls, each of which returns.
\<close>

theorem terminated_absorbing:
  assumes "state p = TERMINATED"
  shows "state (fst (start p)) = TERMINATED \<and> state (fst (pause p)) = TERMINATED
       \<and> state (fst (resume p)) = TERMINATED \<and> state (fst (stop en p)) = TERMINATED
       \<and> state (trigger p) = TERMINATED
       \<and> step fuel en t0 t1 p = Some (p, [], Inr False)
       \<and> (\<exists>p1. calls fuel en cs p = Some p1 \<and> state p1 = TERMINATED)"
  using assms calls_terminated [OF assms, of fuel en cs]
  by (simp add: start_def pause_def resume_def stop_def trigger_def step_def)

theorem terminated_absorbing_witness:
  "state (fst (stop base_env fresh_pipeline)) = TERMINATED
   \<and> (\<exists>p1. calls 3 base_env [Start, Trigger, Step 0 1, Resume, Pause, Stop, Start]
              (fst (stop base_env fresh_pipeline)) = Some p1 \<and> state p1 = TERMINATED)"
proof -
  have h: "state (fst (stop base_env fresh_pipeline)) = TERMINATED"
    by (simp add: stop_def cleanup_def Let_def split_def)
  from terminated_absorbing [OF h, where fuel = 3 and en = base_env
      and cs = "[Start, Trigger, Step 0 1, Resume, Pause, Stop, Start]"]
  show ?thesis using h by simp
qed

section \<open>Publishing: DROP topics and CRITICAL priority\<close>

text \<open>
  Claim C10. On a topic whose event policy is DROP, \<^verbatim>\<open>publish\<close> is a no-op at every
  priority, CRITICAL included: the pipeline and its router are unchanged (nothing is
  queued, the interrupt flag is not set), nothing is logged or dispatched, and no error is
  raised.
\<close>

theorem drop_is_noop:
  "event_policies (event_router p) event_type = Some DROP
   \<Longrightarrow> publish fuel en event_type data priority p = Some (p, [], None)"
  by (simp add: publish_def is_dropped_def)

theorem drop_is_noop_witness:
  "publish 0 base_env (ClassTopic ''Overheat'') 5 CRITICAL
     (fresh_pipeline\<lparr> event_router :=
        set_event_policy (ClassTopic ''Overheat'') DROP (event_router fresh_pipeline) \<rparr>)
   = Some (fresh_pipeline\<lparr> event_router :=
        set_event_policy (ClassTopic ''Overheat'') DROP (event_router fresh_pipeline) \<rparr>, [], None)"
  by (rule drop_is_noop) (simp add: set_event_policy_def)

text \<open>
  Claim C5. For every topic, subscriber configuration and event policy, a publish at
  CRITICAL priority invokes no subscriber callback: it returns (on a DROP topic) or raises
  without calling \<^verbatim>\<open>_dispatch_now\<close>, it leaves the pipeline and router unchanged, and
  what it does is the same whatever the callbacks are.
\<close>

theorem critical_never_dispatches:
  "\<exists>tr res. publish fuel en event_type data CRITICAL p = Some (p, tr, res)
      \<and> (\<forall>cb d. Invoked cb d \<notin> set tr) \<and> (\<forall>et d. DispatchNow et d \<notin> set tr)
      \<and> publish fuel en event_type data CRITICAL p = publish fuel' en' event_type data CRITICAL p"
  by (auto simp add: publish_def Let_def SysLogger_def)

section \<open>The attribute \<^verbatim>\<open>_last_time\<close>\<close>

lemma step_without_last_time:
  "last_time p = None \<Longrightarrow> state p = RUNNING \<Longrightarrow> (mode p = CONDITIONAL \<longrightarrow> trigger_event p)
   \<Longrightarrow> step fuel en t0 t1 p
        = Some (if mode p = CONDITIONAL then p\<lparr> trigger_event := False \<rparr> else p, [], Inl AttributeError)"
  by (simp add: step_def)

lemma step_without_last_time_any:
  "last_time p = None \<Longrightarrow> step fuel en t0 t1 p = Some (p1, tr, res)
   \<Longrightarrow> last_time p1 = None \<and> tr = [] \<and> pcontext p1 = pcontext p \<and> state p1 = state p
       \<and> (res = Inr False \<or> res = Inl AttributeError)"
  by (auto simp add: step_def split: if_splits)

lemma fold_add_strategy_last_time:
  "last_time (fold (\<lambda>s p. fst (add_strategy en s p)) ss p) = last_time p"
  by (induction ss arbitrary: p) (simp_all add: add_strategy_def install_def)

lemma reachable_last_time: "reachable en p \<Longrightarrow> last_time p = None"
proof (induction rule: reachable.induct)
  case (constructed cfg p)
  then show ?case
    by (auto simp add: Pipeline_init_def fold_add_strategy_last_time split: option.splits)
next
  case (after_step p fuel t0 t1 p1 tr res)
  then show ?case using step_without_last_time_any by blast
qed (simp_all add: start_def trigger_def pause_def resume_def stop_def cleanup_def
      request_frame_interrupt_def set_log_policy_def add_strategy_def insert_strategy_def
      remove_strategy_def remove_strategy_by_name_def remove_strategy_by_index_def install_def
      Let_def split_def split: option.splits)

lemma fresh_pipeline_eq: "Pipeline_init base_env loop_config = Inr fresh_pipeline"
  by (simp add: fresh_pipeline_def Pipeline_init_def loop_config_def)

lemma fresh_pipeline_started:
  "state (fst (start fresh_pipeline)) = RUNNING \<and> mode (fst (start fresh_pipeline)) = LOOP
   \<and> frame_index (pcontext (fst (start fresh_pipeline))) = 0"
  by (simp add: fresh_pipeline_def Pipeline_init_def loop_config_def start_def
      fold_add_strategy_last_time add_strategy_def install_def PipelineContext_init_def)

text \<open>
  Claim C2. On every pipeline that the constructor and the methods of \<^verbatim>\<open>Pipeline\<close>
  produce, the attribute \<^verbatim>\<open>_last_time\<close> does not exist. Hence every \<^verbatim>\<open>step()\<close> that
  passes the RUNNING gate and the CONDITIONAL trigger gate raises \<^verbatim>\<open>AttributeError\<close>
  having changed nothing but the consumed trigger: the frame index is not incremented, no
  strategy is executed and \<^verbatim>\<open>process_deferred\<close> is not run (no observation at all). The
  pipeline after the failing step is again such a pipeline, so every later step fails the
  same way: a step of such a pipeline never returns True and never executes a strategy.
\<close>

theorem last_time_never_initialized:
  assumes "reachable en p"
  shows "last_time p = None
       \<and> (state p = RUNNING \<and> (mode p = CONDITIONAL \<longrightarrow> trigger_event p)
            \<longrightarrow> step fuel en t0 t1 p
                  = Some (if mode p = CONDITIONAL then p\<lparr> trigger_event := False \<rparr> else p,
                          [], Inl AttributeError))
       \<and> (\<forall>p1 tr res. step fuel en t0 t1 p = Some (p1, tr, res)
            \<longrightarrow> reachable en p1 \<and> tr = [] \<and> pcontext p1 = pcontext p
                \<and> (res = Inr False \<or> res = Inl AttributeError))"
proof -
  have none: "last_time p = None" using assms by (rule reachable_last_time)
  have later: "reachable en p1 \<and> tr = [] \<and> pcontext p1 = pcontext p
                \<and> (res = Inr False \<or> res = Inl AttributeError)"
    if "step fuel en t0 t1 p = Some (p1, tr, res)" for p1 tr res
    using that step_without_last_time_any [OF none that] reachable.after_step [OF assms that]
    by simp
  show ?thesis using none later step_without_last_time [OF none, of fuel en t0 t1] by blast
qed

theorem last_time_never_initialized_witness:
  "reachable base_env (fst (start fresh_pipeline))
   \<and> state (fst (start fresh_pipeline)) = RUNNING
   \<and> last_time (fst (start fresh_pipeline)) = None
   \<and> step 5 base_env 0 1 (fst (start fresh_pipeline))
       = Some (fst (start fresh_pipeline), [], Inl AttributeError)"
proof -
  have r: "reachable base_env (fst (start fresh_pipeline))"
    by (rule reachable.after_start, rule reachable.constructed, rule fresh_pipeline_eq)
  have s: "state (fst (start fresh_pipeline)) = RUNNING"
    and m: "mode (fst (start fresh_pipeline)) = LOOP"
    using fresh_pipeline_started by blast+
  note t = last_time_never_initialized [OF r, of 5 0 1]
  have l: "last_time (fst (start fresh_pipeline)) = None" using t by (rule conjunct1)
  have g: "mode (fst (start fresh_pipeline)) = CONDITIONAL \<longrightarrow> trigger_event (fst (start fresh_pipeline))"
    by (simp add: m)
  have "step 5 base_env 0 1 (fst (start fresh_pipeline))
       = Some (if mode (fst (start fresh_pipeline)) = CONDITIONAL
               then (fst (start fresh_pipeline))\<lparr> trigger_event := False \<rparr>
               else fst (start fresh_pipeline), [], Inl AttributeError)"
    by (rule mp [OF conjunct1 [OF conjunct2 [OF t]] conjI [OF s g]])
  then have e: "step 5 base_env 0 1 (fst (start fresh_pipeline))
       = Some (fst (start fresh_pipeline), [], Inl AttributeError)"
    by (simp only: m PipelineMode.distinct if_False)
  show ?thesis using r s l e by blast
qed

section \<open>Fatal escalation\<close>

text \<open>
  The exceptions that can leave \<^verbatim>\<open>step()\<close>: the missing attribute, the end-of-step flush
  (\<^verbatim>\<open>__name__\<close> of a topic that is not a class, \<^verbatim>\<open>popleft\<close> on an emptied queue) and
  the pacing (a zero rate). Whatever a strategy or a callback raises is caught inside.
  So the executor's \<^verbatim>\<open>except PipelineCriticalError\<close> branch is never taken and a turn
  of its loop never publishes to the hub.
\<close>

lemma dispatch_loop_error:
  "dispatch_loop fuel en et d i p = Some (p1, tr, Some e) \<Longrightarrow> e = AttributeError"
proof (induction fuel arbitrary: i p p1 tr)
  case 0
  then show ?case by (simp split: if_splits)
next
  case (Suc fuel)
  then show ?case
    by (auto simp add: Let_def split: if_splits prod.splits option.splits)
qed

lemma dispatch_now_error:
  "dispatch_now fuel en et d p = Some (p1, tr, Some e) \<Longrightarrow> e = AttributeError"
  by (auto simp add: dispatch_now_def Let_def split: if_splits option.splits
      dest: dispatch_loop_error)

lemma drain_error:
  "drain fuel en n p = Some (p1, tr, Some e) \<Longrightarrow> e = AttributeError \<or> e = IndexError"
proof (induction n arbitrary: p p1 tr)
  case 0
  then show ?case by simp
next
  case (Suc n)
  then show ?case
    by (auto split: list.splits option.splits prod.splits dest: dispatch_now_error)
qed

lemma process_deferred_error:
  "process_deferred fuel en p = Some (p1, tr, Some e) \<Longrightarrow> e = AttributeError \<or> e = IndexError"
  by (auto simp add: process_deferred_def Let_def split: if_splits option.splits dest: drain_error)

lemma finalize_error:
  "finalize fuel en dur cur p = Some (p1, tr, Some e)
   \<Longrightarrow> e = AttributeError \<or> e = IndexError \<or> e = ZeroDivisionError"
  by (auto simp add: finalize_def handle_frame_pacing_def Let_def
      split: if_splits option.splits prod.splits dest: process_deferred_error)

lemma step_error:
  "step fuel en t0 t1 p = Some (p1, tr, Inl e)
   \<Longrightarrow> e = AttributeError \<or> e = IndexError \<or> e = ZeroDivisionError"
  by (auto simp add: step_def Let_def split: if_splits option.splits prod.splits
      dest: finalize_error)

lemma sweep_one_hub:
  "sweep_one fuel en clock nm policy hub pipe = Some (pipe1, marked, did, tr, hub1) \<Longrightarrow> hub1 = hub"
  by (auto simp add: sweep_one_def split: if_splits option.splits prod.splits sum.splits
      dest: step_error)

lemma sweep_hub:
  "sweep fuel en clock nm policy k hub ps = Some (swept, any, tr, hub1) \<Longrightarrow> hub1 = hub"
proof (induction ps arbitrary: k hub swept any tr hub1)
  case Nil
  then show ?case by simp
next
  case (Cons pipe rest)
  then show ?case
    by (auto split: option.splits prod.splits dest: sweep_one_hub)
qed

lemma loop_turn_hub:
  "loop_turn fuel en clock ex = Some (ex1, tr) \<Longrightarrow> event_hub ex1 = event_hub ex"
  by (auto simp add: loop_turn_def split: option.splits prod.splits dest: sweep_hub)

text \<open>
  Claim C1 (the code at the failing input). An executor with a hub and two running
  pipelines; the chain of the first is a source followed by a strategy that publishes at
  CRITICAL priority. First with \<^verbatim>\<open>_last_time\<close> set by the caller, so that the chain
  runs: the router raises a plain \<^verbatim>\<open>Exception\<close>, which \<^verbatim>\<open>step()\<close> catches as an
  unexpected stage error; the step returns, the hub receives nothing, and the pipeline
  stays RUNNING and attached. Then as the constructor leaves it: \<^verbatim>\<open>step()\<close> raises
  \<^verbatim>\<open>AttributeError\<close> before any strategy runs, the executor logs an unhandled error,
  and again the hub receives nothing and the pipeline stays RUNNING and attached.
\<close>

theorem critical_publish_not_escalated:
  "map_option (\<lambda>(ex, tr). (event_hub ex, map name (pipelines ex), map state (pipelines ex),
                            map (\<lambda>p. frame_index (pcontext p)) (pipelines ex), tr))
     (loop_turn 5 critical_env (\<lambda>k. (1, 2))
        (two_pipelines (with_last_time 0 (fst (start fresh_pipeline)))))
   = Some (Some [], [''main'', ''sibling''], [RUNNING, RUNNING], [1, 1],
       [Executed 1 None (Inr (True, Some 7)),
        Executed 2 (Some 7) (Inl (PyException ''CRITICAL Signal'')),
        Logged ERROR ''Unexpected Error'', Released 7, Released 7,
        Executed 1 None (Inr (True, Some 7)), Released 7])
   \<and> map_option (\<lambda>(ex, tr). (event_hub ex, map name (pipelines ex), map state (pipelines ex),
                            map (\<lambda>p. frame_index (pcontext p)) (pipelines ex), tr))
     (loop_turn 5 critical_env (\<lambda>k. (1, 2)) (two_pipelines (fst (start fresh_pipeline))))
   = Some (Some [], [''main'', ''sibling''], [RUNNING, RUNNING], [0, 1],
       [Logged ERROR ''Unhandled Error'',
        Executed 1 None (Inr (True, Some 7)), Released 7])"
  by code_simp

section \<open>Immediate dispatch\<close>












section \<open>The deferred queue\<close>

text \<open>
  One call of \<^verbatim>\<open>process_deferred\<close> is one pass: when the queued topics are classes and
  the callbacks only ever append to the queue, a call that returns has called
  \<^verbatim>\<open>_dispatch_now\<close> on exactly the entries queued when it began, in order, and raised
  nothing; entries behind the first \<open>n\<close> stay queued, in order, across \<open>n\<close> turns.
\<close>

lemma dispatched_append: "dispatched (xs @ ys) = dispatched xs @ dispatched ys"
  by (induction xs rule: dispatched.induct) simp_all

lemma dispatched_SysLogger: "dispatched (SysLogger policy lvl msg) = []"
  by (simp add: SysLogger_def)

lemma dispatch_loop_class:
  assumes ap: "\<And>cb d q. prefix (deferred_queue (event_router q))
                            (deferred_queue (event_router (fst (callback en cb d q))))"
    and cls: "has_dunder_name et"
  shows "dispatch_loop fuel en et data i p = Some (p1, tr, res)
         \<Longrightarrow> res = None \<and> dispatched tr = []
             \<and> prefix (deferred_queue (event_router p)) (deferred_queue (event_router p1))"
proof (induction fuel arbitrary: i p tr)
  case 0
  then show ?case by (simp split: if_splits)
next
  case (Suc fuel)
  show ?case
  proof (cases "i < length (subscribers (event_router p) et)")
    case False
    with Suc.prems show ?thesis by simp
  next
    case True
    let ?cb = "subscribers (event_router p) et ! i"
    obtain q r where cq: "callback en ?cb data p = (q, r)" by (cases "callback en ?cb data p")
    have pq: "prefix (deferred_queue (event_router p)) (deferred_queue (event_router q))"
      using ap [of p ?cb data] cq by simp
    from Suc.prems True cq cls obtain tr' where
      rec: "dispatch_loop fuel en et data (Suc i) q = Some (p1, tr', res)"
      and tr: "dispatched tr = dispatched tr'"
      by (auto simp add: Let_def dispatched_append dispatched_SysLogger
          split: option.splits if_splits prod.splits)
    from Suc.IH [OF rec] pq tr show ?thesis
      using prefix_order.trans by auto
  qed
qed

lemma dispatch_now_class:
  assumes ap: "\<And>cb d q. prefix (deferred_queue (event_router q))
                            (deferred_queue (event_router (fst (callback en cb d q))))"
    and cls: "has_dunder_name et"
    and res: "dispatch_now fuel en et data p = Some (p1, tr, res)"
  shows "res = None \<and> dispatched tr = [(et, data)]
       \<and> prefix (deferred_queue (event_router p)) (deferred_queue (event_router p1))"
  using res cls dispatch_loop_class [OF ap cls, of fuel data 0 p p1]
  by (auto simp add: dispatch_now_def Let_def dispatched_append dispatched_SysLogger
      split: if_splits option.splits)

lemma prefix_drop: "prefix xs ys \<Longrightarrow> prefix (drop n xs) (drop n ys)"
  by (auto simp add: prefix_def)

lemma prefix_take: "prefix xs ys \<Longrightarrow> n \<le> length xs \<Longrightarrow> take n ys = take n xs"
  by (auto simp add: prefix_def)

lemma drain_single_pass:
  assumes ap: "\<And>cb d q. prefix (deferred_queue (event_router q))
                            (deferred_queue (event_router (fst (callback en cb d q))))"
  shows "n \<le> length (deferred_queue (event_router p))
         \<Longrightarrow> \<forall>e \<in> set (take n (deferred_queue (event_router p))). has_dunder_name (fst e)
         \<Longrightarrow> drain fuel en n p = Some (p1, tr, res)
         \<Longrightarrow> res = None \<and> dispatched tr = take n (deferred_queue (event_router p))
             \<and> prefix (drop n (deferred_queue (event_router p))) (deferred_queue (event_router p1))"
proof (induction n arbitrary: p tr)
  case 0
  then show ?case by simp
next
  case (Suc n)
  from Suc.prems(1) obtain et d rest where
    q: "deferred_queue (event_router p) = (et, d) # rest"
    by (cases "deferred_queue (event_router p)") auto
  let ?p' = "p\<lparr> event_router := (event_router p)\<lparr> deferred_queue := rest \<rparr> \<rparr>"
  have cls: "has_dunder_name et" using Suc.prems(2) q by simp
  from Suc.prems(3) q obtain p2 tr1 r1 where
    d: "dispatch_now fuel en et d ?p' = Some (p2, tr1, r1)"
    by (auto split: option.splits)
  from dispatch_now_class [OF ap cls d]
  have r1: "r1 = None" and t1: "dispatched tr1 = [(et, d)]"
    and pre: "prefix rest (deferred_queue (event_router p2))"
    by simp_all
  from Suc.prems(3) q d r1 obtain tr2 where
    rec: "drain fuel en n p2 = Some (p1, tr2, res)" and tr: "tr = tr1 @ tr2"
    by (auto split: option.splits)
  have n_rest: "n \<le> length rest" using Suc.prems(1) q by simp
  have len: "n \<le> length (deferred_queue (event_router p2))"
    using n_rest pre prefix_length_le by fastforce
  have tk: "take n (deferred_queue (event_router p2)) = take n rest"
    using pre n_rest by (rule prefix_take)
  have cls2: "\<forall>e \<in> set (take n (deferred_queue (event_router p2))). has_dunder_name (fst e)"
    using Suc.prems(2) q tk by simp
  from Suc.IH [OF len cls2 rec]
  have res: "res = None" and t2: "dispatched tr2 = take n rest"
    and pre2: "prefix (drop n (deferred_queue (event_router p2))) (deferred_queue (event_router p1))"
    using tk by simp_all
  have "prefix (drop n rest) (drop n (deferred_queue (event_router p2)))"
    using pre by (rule prefix_drop)
  then have "prefix (drop n rest) (deferred_queue (event_router p1))"
    using pre2 by (rule prefix_order.trans)
  then show ?case using res t1 t2 tr q by (simp add: dispatched_append)
qed

lemma process_deferred_single_pass:
  assumes ap: "\<And>cb d q. prefix (deferred_queue (event_router q))
                            (deferred_queue (event_router (fst (callback en cb d q))))"
    and cls: "\<forall>e \<in> set (deferred_queue (event_router p)). has_dunder_name (fst e)"
    and res: "process_deferred fuel en p = Some (p1, tr, res)"
  shows "res = None \<and> dispatched tr = deferred_queue (event_router p)"
proof (cases "deferred_queue (event_router p) = []")
  case True
  with res show ?thesis by (simp add: process_deferred_def)
next
  case False
  from res False obtain tr2 where
    d: "drain fuel en (length (deferred_queue (event_router p))) p = Some (p1, tr2, res)"
    and tr: "dispatched tr = dispatched tr2"
    by (auto simp add: process_deferred_def Let_def dispatched_append dispatched_SysLogger
        split: option.splits)
  from drain_single_pass [OF ap _ _ d] cls tr show ?thesis by simp
qed

text \<open>
  Claim C6 (the code at the failing input). A router with the default log policy, a
  subscriber on each of two topics, and two deferred events queued: the first on the
  string topic \<^verbatim>\<open>"tick"\<close>, the second on a class topic. \<^verbatim>\<open>process_deferred\<close> pops the
  first event, and the decorator of \<^verbatim>\<open>_dispatch_now\<close> raises \<^verbatim>\<open>AttributeError\<close> on
  \<^verbatim>\<open>event_type.__name__\<close> before any subscriber is invoked: the first event is lost,
  the second is not dispatched by this call and is still queued, and the error leaves the
  call.
\<close>

theorem deferred_event_on_string_topic_lost:
  "deferred_queue (event_router queued_pipeline)
     = [(StrTopic ''tick'', 1), (ClassTopic ''BallDetected'', 2)]
   \<and> subscribers (event_router queued_pipeline) (StrTopic ''tick'') = [3]
   \<and> subscribers (event_router queued_pipeline) (ClassTopic ''BallDetected'') = [1]
   \<and> router_log_policy (event_router queued_pipeline) = LogPolicy_default
   \<and> map_option (\<lambda>(p, tr, res). (deferred_queue (event_router p), tr, res))
        (process_deferred 5 base_env queued_pipeline)
      = Some ([(ClassTopic ''BallDetected'', 2)],
              [Logged INFO ''FLUSH'', DispatchNow (StrTopic ''tick'') 1],
              Some AttributeError)"
  by code_simp

section \<open>Stage errors\<close>




lemma executions_mem: "Executed s c out \<in> set tr \<Longrightarrow> executions tr \<noteq> []"
  by (induction tr rule: executions.induct) auto









lemma released_release_current: "Released f \<in> set (release_current (Some f))"
  by simp








section \<open>Copy-on-write edits of the strategy chain\<close>

lemma install_frame:
  "a < next_ref p \<Longrightarrow> chain_store (install new_chain p) a = chain_store p a"
  by (simp add: install_def)











section \<open>The frame counter\<close>












end
